theory Spec2Isabelle
  imports Complex_Main "HOL-Library.AList" "HOL-Library.Multiset"
begin

section \<open>Broker trade report analysis: the model of trade_analyzer.py\<close>

text \<open>
  The theory embeds the data path of class StockTradeAnalyzer (trade_analyzer.py):
  \<^verbatim>\<open>csv2df\<close> (lines 22-47), \<^verbatim>\<open>df2clean\<close> (lines 49-67), \<^verbatim>\<open>df2calculate\<close> (lines 69-128)
  and the three ranked views \<^verbatim>\<open>top20_buy\<close>, \<^verbatim>\<open>top20_sell\<close>, \<^verbatim>\<open>top20_intraday\<close>
  (lines 132-164).

  Conventions of the embedding.
  \<^item> A float is a rational number. Every floating-point operation of the source is the
    exact operation followed by a rounding function \<open>fl\<close>, which all functions take as
    their first argument: \<open>fl = (\<lambda>x. x)\<close> is exact arithmetic, \<open>fl = fl64\<close> is IEEE-754
    binary64 rounding to nearest, ties to even, without overflow, subnormals, infinities
    and NaN: the prices and share counts of a report are far from these.
  \<^item> Integer columns (int64 in pandas) and Python ints are unbounded integers.
  \<^item> An exception is a value of type \<open>error\<close>; a function that can raise returns
    \<open>error + 'a\<close>.
  \<^item> The column names of the source are Chinese; the model writes them in ASCII. For
    the table built in lines 111-125 of trade_analyzer.py, in the order of the dict:
    \<open>broker\<close> (line 112), \<open>buy_lots\<close> (113), \<open>buy_price\<close> (114), \<open>sell_lots\<close> (115),
    \<open>sell_price\<close> (116), \<open>day_trade_lots\<close> (117), \<open>total_buy_wan\<close> (118),
    \<open>total_sell_wan\<close> (119), \<open>net_buy_lots\<close> (120), \<open>net_sell_lots\<close> (121),
    \<open>net_buy_value\<close> (122), \<open>net_sell_value\<close> (123), \<open>day_trade_pnl\<close> (124).
    A lot is 1000 shares; "wan" is the unit of 10000 currency units.
\<close>

datatype error = DecodeError | IndexError | KeyError | ValueError | ZeroDivisionError

subsection \<open>Floating-point and rounding primitives\<close>

type_synonym rounding = "rat \<Rightarrow> rat"

text \<open>Round to the nearest integer, ties to the even one (Python's and IEEE's rule).\<close>

definition round_half_even :: "rat \<Rightarrow> int" where
  "round_half_even x =
     (let f = \<lfloor>x\<rfloor>; d = x - of_int f
      in if d < 1 / 2 then f else if 1 / 2 < d then f + 1 else if even f then f else f + 1)"

definition pow2 :: "int \<Rightarrow> rat" where
  "pow2 e = (if 0 \<le> e then 2 ^ nat e else 1 / 2 ^ nat (- e))"

function bit_length :: "int \<Rightarrow> int" where
  "bit_length n = (if n \<le> 0 then 0 else 1 + bit_length (n div 2))"
  by pat_completeness auto
termination
  by (relation "measure nat") auto

text \<open>\<open>ilog2 x\<close> is the exponent \<open>e\<close> with \<open>2 ^ e \<le> \<bar>x\<bar> < 2 ^ (e + 1)\<close>, for \<open>x \<noteq> 0\<close>.\<close>

definition ilog2 :: "rat \<Rightarrow> int" where
  "ilog2 x =
     (let pq = quotient_of \<bar>x\<bar>;
          e0 = bit_length (fst pq) - bit_length (snd pq)
      in if pow2 e0 \<le> \<bar>x\<bar> then e0 else e0 - 1)"

text \<open>
  The binary64 number nearest to \<open>x\<close>: the significand has 53 bits, so \<open>x\<close> is rounded
  to a multiple of \<open>2 ^ (ilog2 x - 52)\<close>.
\<close>

definition fl64 :: rounding where
  "fl64 x = (if x = 0 then 0
             else let e = ilog2 x - 52 in of_int (round_half_even (x / pow2 e)) * pow2 e)"

text \<open>
  \<^verbatim>\<open>Series.sum()\<close> of a float column: the elements are added from left to right,
  starting from 0, each addition rounded. This is the order of numpy for fewer than 8
  elements; for longer columns numpy adds in blocks. The theorems below hold for every
  rounding function, or state that they are about exact arithmetic, where the order
  does not matter; the only sums evaluated with \<open>fl64\<close> have at most three terms.
\<close>

definition fsum :: "rounding \<Rightarrow> rat list \<Rightarrow> rat" where
  "fsum fl xs = foldl (\<lambda>a x. fl (a + x)) 0 xs"

text \<open>Python's \<^verbatim>\<open>x / y\<close> on a float and an int: ZeroDivisionError when \<open>y = 0\<close>.\<close>

definition truediv :: "rounding \<Rightarrow> rat \<Rightarrow> rat \<Rightarrow> error + rat" where
  "truediv fl x y = (if y = 0 then Inl ZeroDivisionError else Inr (fl (x / y)))"

text \<open>
  Python's \<^verbatim>\<open>round(x, n)\<close> on a float: the decimal with \<open>n\<close> digits nearest to the
  value of \<open>x\<close> (ties to even), as a float.
\<close>

definition py_round :: "rounding \<Rightarrow> rat \<Rightarrow> nat \<Rightarrow> rat" where
  "py_round fl x n = fl (of_int (round_half_even (x * 10 ^ n)) / 10 ^ n)"

text \<open>
  \<^verbatim>\<open>DataFrame.round(n)\<close> and \<^verbatim>\<open>Series.round(n)\<close> on a float column (numpy): multiply
  by \<open>10 ^ n\<close>, round to the nearest integer, divide by \<open>10 ^ n\<close>.
\<close>

definition np_round :: "rounding \<Rightarrow> rat \<Rightarrow> nat \<Rightarrow> rat" where
  "np_round fl x n = fl (of_int (round_half_even (fl (x * 10 ^ n))) / 10 ^ n)"

text \<open>Python's \<^verbatim>\<open>int(x)\<close> on a float, and \<^verbatim>\<open>astype(int)\<close>: truncation towards zero.\<close>

definition py_int :: "rat \<Rightarrow> int" where
  "py_int x = (if 0 \<le> x then \<lfloor>x\<rfloor> else \<lceil>x\<rceil>)"

subsection \<open>Python list indexing\<close>

text \<open>\<^verbatim>\<open>xs[i]\<close>: a negative index counts from the end; IndexError out of range.\<close>

definition py_index :: "'a list \<Rightarrow> int \<Rightarrow> error + 'a" where
  "py_index xs i =
     (if 0 \<le> i \<and> i < int (length xs) then Inr (xs ! nat i)
      else if i < 0 \<and> - int (length xs) \<le> i then Inr (xs ! nat (int (length xs) + i))
      else Inl IndexError)"

text \<open>The slice \<^verbatim>\<open>xs[i:]\<close>, which never raises.\<close>

definition py_slice_from :: "'a list \<Rightarrow> int \<Rightarrow> 'a list" where
  "py_slice_from xs i =
     (let n = int (length xs); j = (if i < 0 then max 0 (n + i) else min i n)
      in drop (nat j) xs)"

subsection \<open>csv2df: the raw table\<close>

text \<open>
  A raw table holds the header and the data rows as csv.reader split them. A row
  shorter than the table is padded with missing cells at its end: \<open>cell r j\<close> is
  \<open>None\<close> there.
\<close>

record raw_frame =
  raw_columns :: "string list"
  raw_rows :: "string list list"

definition cell :: "string list \<Rightarrow> nat \<Rightarrow> string option" where
  "cell r j = (if j < length r then Some (r ! j) else None)"

text \<open>
  \<^verbatim>\<open>pd.DataFrame(data, columns=header)\<close> on a list of rows: with no rows the table is
  empty and has the columns; otherwise the widest row must have as many cells as the
  header, or the constructor raises ValueError.
\<close>

definition DataFrame :: "string list list \<Rightarrow> string list \<Rightarrow> error + raw_frame" where
  "DataFrame data cols =
     (if data = [] then Inr \<lparr>raw_columns = cols, raw_rows = []\<rparr>
      else if foldr max (map length data) 0 \<noteq> length cols then Inl ValueError
      else Inr \<lparr>raw_columns = cols, raw_rows = data\<rparr>)"

text \<open>
  \<open>csv2df\<close>, lines 22-47. The first argument is the outcome of lines 33-37 (read,
  decode, csv.reader): the rows, or the exception raised there. Every exception is
  caught in line 45 and turned into the result \<open>None\<close>.
\<close>

definition csv2df :: "error + string list list \<Rightarrow> int \<Rightarrow> int \<Rightarrow> raw_frame option" where
  "csv2df content header_row data_start_row =
     (case content of
        Inl e \<Rightarrow> None
      | Inr rows \<Rightarrow>
          if rows = [] then None
          else (case py_index rows header_row of
                  Inl e \<Rightarrow> None
                | Inr header \<Rightarrow>
                    (let data = py_slice_from rows data_start_row
                     in case DataFrame data header of
                          Inl e \<Rightarrow> None
                        | Inr df \<Rightarrow> Some df)))"

subsection \<open>df2clean: the normalized records\<close>

record trade =
  broker :: string
  price :: rat
  buy_shares :: int
  sell_shares :: int

text \<open>
  \<^verbatim>\<open>df.iloc[:, [j1, j2, j3, j4]]\<close>: IndexError when a position is not a column of the
  table.
\<close>

definition iloc4 ::
  "raw_frame \<Rightarrow> nat \<Rightarrow> nat \<Rightarrow> nat \<Rightarrow> nat \<Rightarrow>
   error + (string option \<times> string option \<times> string option \<times> string option) list" where
  "iloc4 df j1 j2 j3 j4 =
     (if list_ex (\<lambda>j. length (raw_columns df) \<le> j) [j1, j2, j3, j4] then Inl IndexError
      else Inr (map (\<lambda>r. (cell r j1, cell r j2, cell r j3, cell r j4)) (raw_rows df)))"

text \<open>
  \<^verbatim>\<open>pd.to_numeric(column, errors="coerce")\<close> on one cell: the parser of pandas is the
  parameter \<open>parse\<close>, which gives \<open>None\<close> (NaN) for a text that is not a number; a
  missing cell is NaN as well.
\<close>

definition to_numeric :: "(string \<Rightarrow> rat option) \<Rightarrow> string option \<Rightarrow> rat option" where
  "to_numeric parse c = (case c of None \<Rightarrow> None | Some s \<Rightarrow> parse s)"

definition fillna :: "rat \<Rightarrow> rat option \<Rightarrow> rat" where
  "fillna d v = (case v of None \<Rightarrow> d | Some q \<Rightarrow> q)"

text \<open>The combined table after the three column assignments of lines 59-65.\<close>

record coerced =
  c_broker :: "string option"
  c_price :: "rat option"
  c_buy_shares :: int
  c_sell_shares :: int

text \<open>
  \<^verbatim>\<open>dropna()\<close>: a row with a missing value in any column is dropped; the rows that
  stay keep their index labels.
\<close>

definition dropna :: "(nat \<times> coerced) list \<Rightarrow> (nat \<times> trade) list" where
  "dropna rows =
     List.map_filter
       (\<lambda>(i, r). case (c_broker r, c_price r) of
                    (Some b, Some p) \<Rightarrow>
                      Some (i, \<lparr>broker = b, price = p,
                                buy_shares = c_buy_shares r, sell_shares = c_sell_shares r\<rparr>)
                  | _ \<Rightarrow> None)
       rows"

text \<open>
  \<open>df2clean\<close>, lines 49-67. \<open>combined_df\<close> is the left block followed by the right
  block, with the index labels \<open>0, 1, ...\<close> of \<^verbatim>\<open>ignore_index=True\<close>.
\<close>

definition combined_df ::
  "raw_frame \<Rightarrow>
   error + (nat \<times> string option \<times> string option \<times> string option \<times> string option) list" where
  "combined_df df =
     (case iloc4 df 1 2 3 4 of
        Inl e \<Rightarrow> Inl e
      | Inr left_df \<Rightarrow>
          (case iloc4 df 7 8 9 10 of
             Inl e \<Rightarrow> Inl e
           | Inr right_df \<Rightarrow>
               Inr (zip [0..<length (left_df @ right_df)] (left_df @ right_df))))"

definition df2clean :: "(string \<Rightarrow> rat option) \<Rightarrow> raw_frame \<Rightarrow> error + (nat \<times> trade) list" where
  "df2clean parse df =
     (case combined_df df of
        Inl e \<Rightarrow> Inl e
      | Inr combined \<Rightarrow>
          Inr (dropna
                 (map (\<lambda>(i, b, p, bu, se).
                         (i, \<lparr>c_broker = b,
                              c_price = to_numeric parse p,
                              c_buy_shares = py_int (fillna 0 (to_numeric parse bu)),
                              c_sell_shares = py_int (fillna 0 (to_numeric parse se))\<rparr>))
                    combined)))"

subsection \<open>df2calculate: the per-broker aggregates\<close>

text \<open>\<^verbatim>\<open>Series.unique()\<close>: the distinct values in the order of their first appearance.\<close>

fun unique :: "'a list \<Rightarrow> 'a list" where
  "unique [] = []"
| "unique (x # xs) = x # unique (filter (\<lambda>y. y \<noteq> x) xs)"

text \<open>
  The local variables of one iteration of the loop of lines 75-125, under the names
  of the source.
\<close>

record locals =
  total_buy_shares :: int
  total_buy_amount :: rat
  avg_buy_price :: rat
  total_sell_shares :: int
  total_sell_amount :: rat
  avg_sell_price :: rat
  day_trade_volume :: int
  profit_loss :: rat
  net_shares :: int
  net_buy_amount :: rat
  net_sell_amount :: rat

text \<open>
  Lines 79-86 (with \<open>shares = buy_shares\<close>) and lines 89-96 (with
  \<open>shares = sell_shares\<close>): the total shares, the total amount and the average price
  of one side.
\<close>

definition side_totals ::
  "rounding \<Rightarrow> (trade \<Rightarrow> int) \<Rightarrow> trade list \<Rightarrow> error + (int \<times> rat \<times> rat)" where
  "side_totals fl shares broker_data =
     (let side_data = filter (\<lambda>r. 0 < shares r) broker_data;
          total_shares = (if side_data \<noteq> [] then sum_list (map shares side_data) else 0)
      in if 0 < total_shares
         then (let total_amount =
                     fsum fl (map (\<lambda>r. fl (price r * of_int (shares r))) side_data)
               in case truediv fl total_amount (of_int total_shares) of
                    Inl e \<Rightarrow> Inl e
                  | Inr q \<Rightarrow> Inr (total_shares, total_amount, py_round fl q 2))
         else Inr (total_shares, 0, 0))"

text \<open>Lines 76-109: the body of the loop up to the dict.\<close>

definition broker_locals :: "rounding \<Rightarrow> trade list \<Rightarrow> string \<Rightarrow> error + locals" where
  "broker_locals fl df b =
     (let broker_data = filter (\<lambda>r. broker r = b) df
      in case side_totals fl buy_shares broker_data of
           Inl e \<Rightarrow> Inl e
         | Inr (tbs, tba, abp) \<Rightarrow>
             (case side_totals fl sell_shares broker_data of
                Inl e \<Rightarrow> Inl e
              | Inr (tss, tsa, asp) \<Rightarrow>
                  (let dtv = min tbs tss;
                       pl = (if dtv \<noteq> 0 then fl (fl (asp - abp) * 1000) else 0);
                       ns = tbs - tss
                   in Inr \<lparr>total_buy_shares = tbs, total_buy_amount = tba, avg_buy_price = abp,
                           total_sell_shares = tss, total_sell_amount = tsa, avg_sell_price = asp,
                           day_trade_volume = dtv, profit_loss = pl, net_shares = ns,
                           net_buy_amount =
                             (if 0 < ns
                              then (if abp \<noteq> 0 then fl (fl (of_int ns * abp) / 10000) else 0)
                              else 0),
                           net_sell_amount =
                             (if 0 < ns then 0
                              else (if asp \<noteq> 0 then fl (fl (of_int \<bar>ns\<bar> * asp) / 10000)
                                    else 0))\<rparr>)))"

record agg_row =
  a_broker :: string
  buy_lots :: rat
  buy_price :: rat
  sell_lots :: rat
  sell_price :: rat
  day_trade_lots :: rat
  total_buy_wan :: rat
  total_sell_wan :: rat
  net_buy_lots :: rat
  net_sell_lots :: rat
  net_buy_value :: int
  net_sell_value :: int
  day_trade_pnl :: rat

text \<open>
  Lines 111-125: the dict stored under the broker. The denominators are the literals
  1000, 10000 and 10000 * 1000.
\<close>

definition result_row :: "rounding \<Rightarrow> string \<Rightarrow> locals \<Rightarrow> agg_row" where
  "result_row fl b l =
     \<lparr>a_broker = b,
      buy_lots = py_round fl (fl (of_int (total_buy_shares l) / 1000)) 1,
      buy_price = py_round fl (avg_buy_price l) 1,
      sell_lots = py_round fl (fl (of_int (total_sell_shares l) / 1000)) 1,
      sell_price = py_round fl (avg_sell_price l) 1,
      day_trade_lots = py_round fl (fl (of_int (day_trade_volume l) / 1000)) 1,
      total_buy_wan = py_round fl (fl (total_buy_amount l / 10000)) 1,
      total_sell_wan = py_round fl (fl (total_sell_amount l / 10000)) 1,
      net_buy_lots =
        (if 0 < net_shares l then py_round fl (fl (of_int (net_shares l) / 1000)) 1 else 0),
      net_sell_lots =
        (if net_shares l < 0 then py_round fl (fl (of_int \<bar>net_shares l\<bar> / 1000)) 1 else 0),
      net_buy_value = py_int (py_round fl (net_buy_amount l) 1),
      net_sell_value = py_int (py_round fl (net_sell_amount l) 1),
      day_trade_pnl =
        fl (fl (profit_loss l * of_int (day_trade_volume l)) / (10000 * 1000))\<rparr>"

text \<open>
  The loop of line 75 over the brokers, filling the dict \<open>results\<close> (an association
  list in insertion order). It stops at the first exception.
\<close>

fun calc_loop ::
  "rounding \<Rightarrow> trade list \<Rightarrow> string list \<Rightarrow> (string \<times> agg_row) list \<Rightarrow>
   error + (string \<times> agg_row) list" where
  "calc_loop fl df [] results = Inr results"
| "calc_loop fl df (b # bs) results =
     (case broker_locals fl df b of
        Inl e \<Rightarrow> Inl e
      | Inr l \<Rightarrow> calc_loop fl df bs (AList.update b (result_row fl b l) results))"

record agg_frame =
  agg_columns :: "string list"
  agg_rows :: "agg_row list"

definition result_columns :: "string list" where
  "result_columns =
     [''broker'', ''buy_lots'', ''buy_price'', ''sell_lots'', ''sell_price'',
      ''day_trade_lots'', ''total_buy_wan'', ''total_sell_wan'', ''net_buy_lots'',
      ''net_sell_lots'', ''net_buy_value'', ''net_sell_value'', ''day_trade_pnl'']"

text \<open>
  \<^verbatim>\<open>pd.DataFrame.from_dict(results, orient="index").reset_index(drop=True)\<close>, line 127:
  one row per key, with the columns of the dicts. For an empty dict the table has no
  rows and no columns.
\<close>

definition from_dict :: "(string \<times> agg_row) list \<Rightarrow> agg_frame" where
  "from_dict results =
     (if results = [] then \<lparr>agg_columns = [], agg_rows = []\<rparr>
      else \<lparr>agg_columns = result_columns, agg_rows = map snd results\<rparr>)"

text \<open>
  \<^verbatim>\<open>result_df.round(1)\<close>, line 128: the float columns are rounded; the text column
  and the two integer columns of lines 122-123 stay.
\<close>

definition round_row :: "rounding \<Rightarrow> agg_row \<Rightarrow> agg_row" where
  "round_row fl r =
     r\<lparr>buy_lots := np_round fl (buy_lots r) 1,
       buy_price := np_round fl (buy_price r) 1,
       sell_lots := np_round fl (sell_lots r) 1,
       sell_price := np_round fl (sell_price r) 1,
       day_trade_lots := np_round fl (day_trade_lots r) 1,
       total_buy_wan := np_round fl (total_buy_wan r) 1,
       total_sell_wan := np_round fl (total_sell_wan r) 1,
       net_buy_lots := np_round fl (net_buy_lots r) 1,
       net_sell_lots := np_round fl (net_sell_lots r) 1,
       day_trade_pnl := np_round fl (day_trade_pnl r) 1\<rparr>"

definition round_frame :: "rounding \<Rightarrow> agg_frame \<Rightarrow> agg_frame" where
  "round_frame fl f = f\<lparr>agg_rows := map (round_row fl) (agg_rows f)\<rparr>"

text \<open>\<open>calc_results\<close> is the dict \<open>results\<close> when the loop of line 75 has ended.\<close>

definition calc_results :: "rounding \<Rightarrow> trade list \<Rightarrow> error + (string \<times> agg_row) list" where
  "calc_results fl df = calc_loop fl df (unique (map broker df)) []"

definition df2calculate :: "rounding \<Rightarrow> trade list \<Rightarrow> error + agg_frame" where
  "df2calculate fl df =
     (case calc_results fl df of
        Inl e \<Rightarrow> Inl e
      | Inr results \<Rightarrow> Inr (round_frame fl (from_dict results)))"

subsection \<open>The ranked views\<close>

text \<open>
  \<^verbatim>\<open>sort_values(by=key, ascending=False)\<close>: pandas reverses the rows, sorts them in
  ascending order and reverses the result. The order of rows with equal keys is that
  of a stable sort here; pandas' default sort promises no order for them, and no
  theorem below depends on it.
\<close>

definition sort_values_desc :: "('r \<Rightarrow> rat) \<Rightarrow> 'r list \<Rightarrow> 'r list" where
  "sort_values_desc key xs = rev (sort_key key (rev xs))"

text \<open>
  \<^verbatim>\<open>head(n)\<close>: the first \<open>n\<close> rows; for a negative \<open>n\<close>, all rows but the last
  \<open>- n\<close>.
\<close>

definition head :: "int \<Rightarrow> 'a list \<Rightarrow> 'a list" where
  "head n xs = (if 0 \<le> n then take (nat n) xs else take (length xs - nat (- n)) xs)"

text \<open>
  A row of a ranked view: the five common columns, and the two columns of the view,
  the sort key (\<open>net_buy_lots\<close>, \<open>net_sell_lots\<close> or \<open>day_trade_lots\<close>) and the value
  shown beside it (\<open>net_buy_value\<close>, \<open>net_sell_value\<close> or \<open>day_trade_pnl\<close>).
\<close>

record view_row =
  v_broker :: string
  v_buy_lots :: rat
  v_buy_price :: rat
  v_sell_lots :: rat
  v_sell_price :: rat
  v_key :: rat
  v_value :: rat

text \<open>
  \<^verbatim>\<open>reset_index(drop=True)\<close> and \<^verbatim>\<open>out.index = out.index + 1\<close>: the rows paired with
  their rank.
\<close>

definition with_rank :: "'a list \<Rightarrow> (nat \<times> 'a) list" where
  "with_rank out = zip (map (\<lambda>i. i + 1) [0..<length out]) out"

definition round_prices :: "rounding \<Rightarrow> view_row \<Rightarrow> view_row" where
  "round_prices fl r =
     r\<lparr>v_buy_price := np_round fl (v_buy_price r) 1,
       v_sell_price := np_round fl (v_sell_price r) 1\<rparr>"

text \<open>
  \<open>top20_buy\<close>, lines 132-140. KeyError when the table lacks the sort column or a
  column of \<open>cols\<close>.
\<close>

definition top20_buy :: "rounding \<Rightarrow> agg_frame \<Rightarrow> int \<Rightarrow> error + (nat \<times> view_row) list" where
  "top20_buy fl df n =
     (if ''net_buy_lots'' \<notin> set (agg_columns df) then Inl KeyError
      else (let df_buy_20 = head n (sort_values_desc net_buy_lots (agg_rows df));
                cols = [''broker'', ''buy_lots'', ''buy_price'', ''sell_lots'', ''sell_price'',
                        ''net_buy_lots'', ''net_buy_value'']
            in if \<not> set cols \<subseteq> set (agg_columns df) then Inl KeyError
               else (let out = map (\<lambda>r. \<lparr>v_broker = a_broker r, v_buy_lots = buy_lots r,
                                           v_buy_price = buy_price r, v_sell_lots = sell_lots r,
                                           v_sell_price = sell_price r, v_key = net_buy_lots r,
                                           v_value = of_int (net_buy_value r)\<rparr>) df_buy_20
                     in Inr (with_rank (map (round_prices fl) out)))))"

text \<open>\<open>top20_sell\<close>, lines 142-150.\<close>

definition top20_sell :: "rounding \<Rightarrow> agg_frame \<Rightarrow> int \<Rightarrow> error + (nat \<times> view_row) list" where
  "top20_sell fl df n =
     (if ''net_sell_lots'' \<notin> set (agg_columns df) then Inl KeyError
      else (let df_sell_20 = head n (sort_values_desc net_sell_lots (agg_rows df));
                cols = [''broker'', ''buy_lots'', ''buy_price'', ''sell_lots'', ''sell_price'',
                        ''net_sell_lots'', ''net_sell_value'']
            in if \<not> set cols \<subseteq> set (agg_columns df) then Inl KeyError
               else (let out = map (\<lambda>r. \<lparr>v_broker = a_broker r, v_buy_lots = buy_lots r,
                                           v_buy_price = buy_price r, v_sell_lots = sell_lots r,
                                           v_sell_price = sell_price r, v_key = net_sell_lots r,
                                           v_value = of_int (net_sell_value r)\<rparr>) df_sell_20
                     in Inr (with_rank (map (round_prices fl) out)))))"

text \<open>
  \<open>top20_intraday\<close>, lines 152-164; line 160 rounds the profit-and-loss column as
  well.
\<close>

definition top20_intraday :: "rounding \<Rightarrow> agg_frame \<Rightarrow> int \<Rightarrow> error + (nat \<times> view_row) list" where
  "top20_intraday fl df n =
     (if ''day_trade_lots'' \<notin> set (agg_columns df) then Inl KeyError
      else (let df_day_20 = head n (sort_values_desc day_trade_lots (agg_rows df));
                cols = [''broker'', ''buy_lots'', ''buy_price'', ''sell_lots'', ''sell_price'',
                        ''day_trade_lots'', ''day_trade_pnl'']
            in if \<not> set cols \<subseteq> set (agg_columns df) then Inl KeyError
               else (let out = map (\<lambda>r. \<lparr>v_broker = a_broker r, v_buy_lots = buy_lots r,
                                           v_buy_price = buy_price r, v_sell_lots = sell_lots r,
                                           v_sell_price = sell_price r, v_key = day_trade_lots r,
                                           v_value = day_trade_pnl r\<rparr>) df_day_20
                     in Inr (with_rank
                               (map (round_prices fl)
                                  (map (\<lambda>r. r\<lparr>v_value := np_round fl (v_value r) 1\<rparr>) out))))))"

subsection \<open>Example reports\<close>

text \<open>
  The records of the example of section 8 of the specification: broker A buys 1000
  shares at 10.0 and sells 500 at 12.0, broker B buys 2000 at 9.0.
\<close>

definition spec_example :: "trade list" where
  "spec_example =
     [\<lparr>broker = ''A'', price = 10, buy_shares = 1000, sell_shares = 0\<rparr>,
      \<lparr>broker = ''A'', price = 12, buy_shares = 0, sell_shares = 500\<rparr>,
      \<lparr>broker = ''B'', price = 9, buy_shares = 2000, sell_shares = 0\<rparr>]"



text \<open>
  Three buy records of one broker, at 63.56 (7 shares), 48.87 (5 shares) and 84.78
  (2 shares), and the same records with the last two exchanged. The prices are the
  binary64 numbers that the decimals parse to.
\<close>

definition float_order_example :: "trade list" where
  "float_order_example =
     [\<lparr>broker = ''A'', price = fl64 (6356 / 100), buy_shares = 7, sell_shares = 0\<rparr>,
      \<lparr>broker = ''A'', price = fl64 (4887 / 100), buy_shares = 5, sell_shares = 0\<rparr>,
      \<lparr>broker = ''A'', price = fl64 (8478 / 100), buy_shares = 2, sell_shares = 0\<rparr>]"

definition float_order_example_permuted :: "trade list" where
  "float_order_example_permuted =
     [\<lparr>broker = ''A'', price = fl64 (6356 / 100), buy_shares = 7, sell_shares = 0\<rparr>,
      \<lparr>broker = ''A'', price = fl64 (8478 / 100), buy_shares = 2, sell_shares = 0\<rparr>,
      \<lparr>broker = ''A'', price = fl64 (4887 / 100), buy_shares = 5, sell_shares = 0\<rparr>]"



text \<open>
  A report that ends after its three header lines (title, stock code, column
  names), and the raw table \<open>csv2df\<close> builds from it.
\<close>

definition header_only_report :: "string list list" where
  "header_only_report =
     [[''report''],
      [''stock'', ''2330''],
      [''no'', ''broker'', ''price'', ''buy'', ''sell'', '''',
       ''no'', ''broker'', ''price'', ''buy'', ''sell'']]"

definition empty_raw_frame :: raw_frame where
  "empty_raw_frame =
     \<lparr>raw_columns = [''no'', ''broker'', ''price'', ''buy'', ''sell'', '''',
                     ''no'', ''broker'', ''price'', ''buy'', ''sell''],
      raw_rows = []\<rparr>"



section \<open>Properties\<close>

subsection \<open>Auxiliary facts\<close>


text \<open>
  Checks of \<open>fl64\<close>: the binary64 number nearest to 0.1 is
  3602879701896397 / 2 ^ 55, and numbers that are binary64 numbers stay.
\<close>

lemma fl64_tenth: "fl64 (1 / 10) = 3602879701896397 / 36028797018963968"
  by code_simp

lemma fl64_representable: "fl64 (1 / 2) = 1 / 2" "fl64 1670 = 1670" "fl64 (- 3 / 4) = - 3 / 4"
  by code_simp+







lemma fsum_acc: "foldl (\<lambda>a x. a + x) a xs = a + sum_list xs"
  for a :: rat
  by (induction xs arbitrary: a) (simp_all add: add.assoc)

lemma fsum_exact: "fsum (\<lambda>x. x) xs = sum_list xs"
  by (simp add: fsum_def fsum_acc)

lemma unique_set: "set (unique xs) = set xs"
  by (induction xs rule: unique.induct) auto

lemma unique_distinct: "distinct (unique xs)"
  by (induction xs rule: unique.induct) (auto simp: unique_set)

lemma update_fresh: "k \<notin> fst ` set al \<Longrightarrow> AList.update k v al = al @ [(k, v)]"
  by (induction al) auto

lemma side_shares_nonneg:
  fixes sh :: "'a \<Rightarrow> int"
  shows "0 \<le> sum_list (map sh (filter (\<lambda>r. 0 < sh r) bd))"
  by (induction bd) auto

lemma side_totals_Inr:
  "side_totals fl sh bd =
     Inr (sum_list (map sh (filter (\<lambda>r. 0 < sh r) bd)),
          (if 0 < sum_list (map sh (filter (\<lambda>r. 0 < sh r) bd))
           then fsum fl (map (\<lambda>r. fl (price r * of_int (sh r))) (filter (\<lambda>r. 0 < sh r) bd))
           else 0),
          (if 0 < sum_list (map sh (filter (\<lambda>r. 0 < sh r) bd))
           then py_round fl
                  (fl (fsum fl (map (\<lambda>r. fl (price r * of_int (sh r))) (filter (\<lambda>r. 0 < sh r) bd))
                       / of_int (sum_list (map sh (filter (\<lambda>r. 0 < sh r) bd))))) 2
           else 0))"
  by (auto simp: side_totals_def Let_def truediv_def)

lemma side_totals_fields:
  assumes "side_totals fl sh bd = Inr (t, a, p)"
  shows "t = sum_list (map sh (filter (\<lambda>r. 0 < sh r) bd))"
    and "0 \<le> t"
    and "a = (if 0 < t
              then fsum fl (map (\<lambda>r. fl (price r * of_int (sh r))) (filter (\<lambda>r. 0 < sh r) bd))
              else 0)"
    and "p = (if 0 < t then py_round fl (fl (a / of_int t)) 2 else 0)"
proof -
  from assms show t: "t = sum_list (map sh (filter (\<lambda>r. 0 < sh r) bd))"
    unfolding side_totals_Inr by simp
  show "0 \<le> t"
    unfolding t by (rule side_shares_nonneg)
  from assms show a: "a = (if 0 < t
              then fsum fl (map (\<lambda>r. fl (price r * of_int (sh r))) (filter (\<lambda>r. 0 < sh r) bd))
              else 0)"
    unfolding side_totals_Inr t by simp
  from assms show "p = (if 0 < t then py_round fl (fl (a / of_int t)) 2 else 0)"
    unfolding side_totals_Inr a t by (simp split: if_splits)
qed

lemma broker_locals_Inr: "\<exists>l. broker_locals fl df b = Inr l"
  by (simp add: broker_locals_def side_totals_Inr Let_def)

lemma broker_locals_sides:
  assumes "broker_locals fl df b = Inr l"
  shows "side_totals fl buy_shares (filter (\<lambda>r. broker r = b) df) =
           Inr (total_buy_shares l, total_buy_amount l, avg_buy_price l)"
    and "side_totals fl sell_shares (filter (\<lambda>r. broker r = b) df) =
           Inr (total_sell_shares l, total_sell_amount l, avg_sell_price l)"
    and "day_trade_volume l = min (total_buy_shares l) (total_sell_shares l)"
    and "profit_loss l =
           (if day_trade_volume l \<noteq> 0 then fl (fl (avg_sell_price l - avg_buy_price l) * 1000)
            else 0)"
    and "net_shares l = total_buy_shares l - total_sell_shares l"
    and "net_buy_amount l =
           (if 0 < net_shares l
            then (if avg_buy_price l \<noteq> 0
                  then fl (fl (of_int (net_shares l) * avg_buy_price l) / 10000) else 0)
            else 0)"
    and "net_sell_amount l =
           (if 0 < net_shares l then 0
            else (if avg_sell_price l \<noteq> 0
                  then fl (fl (of_int \<bar>net_shares l\<bar> * avg_sell_price l) / 10000) else 0))"
  using assms
  by (auto simp: broker_locals_def Let_def abs_if simp del: of_int_diff of_int_minus
      split: sum.splits prod.splits)


lemma calc_loop_rows:
  "distinct bs \<Longrightarrow> set bs \<inter> fst ` set results = {} \<Longrightarrow>
   calc_loop fl df bs results =
     Inr (results @ map (\<lambda>b. (b, result_row fl b (projr (broker_locals fl df b)))) bs)"
proof (induction bs arbitrary: results)
  case Nil
  then show ?case by simp
next
  case (Cons b bs)
  obtain l where l: "broker_locals fl df b = Inr l"
    using broker_locals_Inr by blast
  have fresh: "b \<notin> fst ` set results"
    using Cons.prems(2) by auto
  have upd: "AList.update b (result_row fl b l) results = results @ [(b, result_row fl b l)]"
    using fresh by (rule update_fresh)
  have "set bs \<inter> fst ` set (results @ [(b, result_row fl b l)]) = {}"
    using Cons.prems by auto
  with Cons.IH [of "results @ [(b, result_row fl b l)]"] Cons.prems(1)
  show ?case
    by (simp add: l upd)
qed

lemma calc_results_Inr:
  "calc_results fl df =
     Inr (map (\<lambda>b. (b, result_row fl b (projr (broker_locals fl df b)))) (unique (map broker df)))"
  using calc_loop_rows [of "unique (map broker df)" "[]" fl df]
  by (simp add: calc_results_def unique_distinct)

lemma df2calculate_Inr:
  "df2calculate fl df =
     Inr (round_frame fl (from_dict
       (map (\<lambda>b. (b, result_row fl b (projr (broker_locals fl df b)))) (unique (map broker df)))))"
  by (simp add: df2calculate_def calc_results_Inr)

lemma df2calculate_rows:
  assumes "df2calculate fl df = Inr f"
  shows "agg_rows f =
           map (\<lambda>b. round_row fl (result_row fl b (projr (broker_locals fl df b))))
             (unique (map broker df))"
  using assms
  by (auto simp: df2calculate_Inr round_frame_def from_dict_def)







lemma sum_list_filter_mset:
  fixes g :: "'a \<Rightarrow> 'b::comm_monoid_add"
  assumes "mset xs = mset ys"
  shows "sum_list (map g (filter P xs)) = sum_list (map g (filter P ys))"
proof -
  have "mset (map g (filter P xs)) = mset (map g (filter P ys))"
    using assms by (metis mset_filter mset_map)
  then have "sum_mset (mset (map g (filter P xs))) = sum_mset (mset (map g (filter P ys)))"
    by simp
  then show ?thesis
    by (simp only: sum_mset_sum_list)
qed

lemma side_totals_exact_perm:
  assumes "mset bd = mset bd'"
  shows "side_totals (\<lambda>x. x) sh bd = side_totals (\<lambda>x. x) sh bd'"
  unfolding side_totals_Inr fsum_exact
  by (simp only: sum_list_filter_mset [OF assms])

lemma side_shares_perm:
  assumes "mset bd = mset bd'"
    and "side_totals fl sh bd = Inr (t, a, p)" and "side_totals fl sh bd' = Inr (t', a', p')"
  shows "t = t'"
  using side_totals_fields(1) [OF assms(2)] side_totals_fields(1) [OF assms(3)]
    sum_list_filter_mset [OF assms(1), of sh "\<lambda>r. 0 < sh r"]
  by simp

lemma broker_data_perm:
  "mset df = mset df' \<Longrightarrow>
   mset (filter (\<lambda>r. broker r = b) df) = mset (filter (\<lambda>r. broker r = b) df')"
  by (metis mset_filter)






lemma broker_locals_exact_perm:
  assumes "mset df = mset df'"
  shows "broker_locals (\<lambda>x. x) df b = broker_locals (\<lambda>x. x) df' b"
  unfolding broker_locals_def
  by (simp only: Let_def side_totals_exact_perm [OF broker_data_perm [OF assms]])

lemma broker_locals_shares_perm:
  assumes "mset df = mset df'"
    and l: "broker_locals fl df b = Inr l" and l': "broker_locals fl df' b = Inr l'"
  shows "total_buy_shares l = total_buy_shares l'" and "total_sell_shares l = total_sell_shares l'"
    and "day_trade_volume l = day_trade_volume l'" and "net_shares l = net_shares l'"
proof -
  note p = broker_data_perm [OF assms(1), of b]
  show b: "total_buy_shares l = total_buy_shares l'"
    using side_shares_perm [OF p broker_locals_sides(1) [OF l] broker_locals_sides(1) [OF l']] .
  show s: "total_sell_shares l = total_sell_shares l'"
    using side_shares_perm [OF p broker_locals_sides(2) [OF l] broker_locals_sides(2) [OF l']] .
  show "day_trade_volume l = day_trade_volume l'"
    using broker_locals_sides(3) [OF l] broker_locals_sides(3) [OF l'] b s by simp
  show "net_shares l = net_shares l'"
    using broker_locals_sides(5) [OF l] broker_locals_sides(5) [OF l'] b s by simp
qed

lemma df2calculate_row_set:
  assumes "df2calculate fl df = Inr f"
  shows "set (agg_rows f) =
           (\<lambda>b. round_row fl (result_row fl b (projr (broker_locals fl df b)))) ` broker ` set df"
  by (simp add: df2calculate_rows [OF assms] unique_set image_image)




lemma keys_sort_values_desc:
  "map key (sort_values_desc key xs) = rev (sort (map key xs))"
proof -
  have "sort (map key (rev xs)) = map key (sort_key key (rev xs))"
    by (rule properties_for_sort) simp_all
  moreover have "sort (map key (rev xs)) = sort (map key xs)"
    by (rule properties_for_sort) simp_all
  ultimately show ?thesis
    by (simp add: sort_values_desc_def rev_map)
qed

lemma sorted_sort_values_desc:
  "sorted_wrt (\<ge>) (map key (sort_values_desc key xs))"
  unfolding keys_sort_values_desc
  by (simp add: sorted_wrt_rev)






lemma top20_buy_Inr:
  assumes "set result_columns \<subseteq> set (agg_columns df)"
  shows "top20_buy fl df n =
     Inr (with_rank (map (\<lambda>r. round_prices fl
            \<lparr>v_broker = a_broker r, v_buy_lots = buy_lots r, v_buy_price = buy_price r,
             v_sell_lots = sell_lots r, v_sell_price = sell_price r, v_key = net_buy_lots r,
             v_value = of_int (net_buy_value r)\<rparr>)
          (head n (sort_values_desc net_buy_lots (agg_rows df)))))"
  using assms by (simp add: top20_buy_def result_columns_def Let_def comp_def)

lemma top20_sell_Inr:
  assumes "set result_columns \<subseteq> set (agg_columns df)"
  shows "top20_sell fl df n =
     Inr (with_rank (map (\<lambda>r. round_prices fl
            \<lparr>v_broker = a_broker r, v_buy_lots = buy_lots r, v_buy_price = buy_price r,
             v_sell_lots = sell_lots r, v_sell_price = sell_price r, v_key = net_sell_lots r,
             v_value = of_int (net_sell_value r)\<rparr>)
          (head n (sort_values_desc net_sell_lots (agg_rows df)))))"
  using assms by (simp add: top20_sell_def result_columns_def Let_def comp_def)

lemma top20_intraday_Inr:
  assumes "set result_columns \<subseteq> set (agg_columns df)"
  shows "top20_intraday fl df n =
     Inr (with_rank (map (\<lambda>r. round_prices fl
            (\<lparr>v_broker = a_broker r, v_buy_lots = buy_lots r, v_buy_price = buy_price r,
              v_sell_lots = sell_lots r, v_sell_price = sell_price r, v_key = day_trade_lots r,
              v_value = day_trade_pnl r\<rparr>\<lparr>v_value := np_round fl (day_trade_pnl r) 1\<rparr>))
          (head n (sort_values_desc day_trade_lots (agg_rows df)))))"
  using assms by (simp add: top20_intraday_def result_columns_def Let_def comp_def)





















lemma spec_example_exact:
  "map_sum id avg_buy_price (broker_locals (\<lambda>x. x) spec_example ''A'') = Inr 10"
  "map_sum id avg_sell_price (broker_locals (\<lambda>x. x) spec_example ''A'') = Inr 12"
  by code_simp+

lemma float_order_example_eval:
  "broker_locals fl64 float_order_example ''A'' =
     Inr \<lparr>total_buy_shares = 14, total_buy_amount = 472146785641431 / 549755813888,
          avg_buy_price = fl64 (6134 / 100),
          total_sell_shares = 0, total_sell_amount = 0, avg_sell_price = 0,
          day_trade_volume = 0, profit_loss = 0, net_shares = 14,
          net_buy_amount = fl64 (fl64 (14 * fl64 (6134 / 100)) / 10000), net_sell_amount = 0\<rparr>"
  "broker_locals fl64 float_order_example_permuted ''A'' =
     Inr \<lparr>total_buy_shares = 14, total_buy_amount = fl64 (85883 / 100),
          avg_buy_price = fl64 (6135 / 100),
          total_sell_shares = 0, total_sell_amount = 0, avg_sell_price = 0,
          day_trade_volume = 0, profit_loss = 0, net_shares = 14,
          net_buy_amount = fl64 (fl64 (14 * fl64 (6135 / 100)) / 10000), net_sell_amount = 0\<rparr>"
  by code_simp+

lemma float_order_example_tables:
  "df2calculate fl64 float_order_example =
     Inr \<lparr>agg_columns = result_columns,
          agg_rows =
            [\<lparr>a_broker = ''A'', buy_lots = 0, buy_price = fl64 (613 / 10), sell_lots = 0,
              sell_price = 0, day_trade_lots = 0, total_buy_wan = fl64 (1 / 10),
              total_sell_wan = 0, net_buy_lots = 0, net_sell_lots = 0, net_buy_value = 0,
              net_sell_value = 0, day_trade_pnl = 0\<rparr>]\<rparr>"
  "df2calculate fl64 float_order_example_permuted =
     Inr \<lparr>agg_columns = result_columns,
          agg_rows =
            [\<lparr>a_broker = ''A'', buy_lots = 0, buy_price = fl64 (614 / 10), sell_lots = 0,
              sell_price = 0, day_trade_lots = 0, total_buy_wan = fl64 (1 / 10),
              total_sell_wan = 0, net_buy_lots = 0, net_sell_lots = 0, net_buy_value = 0,
              net_sell_value = 0, day_trade_pnl = 0\<rparr>]\<rparr>"
  by code_simp+

lemma float_order_example_perm: "mset float_order_example = mset float_order_example_permuted"
  by (simp add: float_order_example_def float_order_example_permuted_def)

lemma float_order_example_differs:
  "fl64 (6134 / 100) \<noteq> fl64 (6135 / 100)" "fl64 (613 / 10) \<noteq> fl64 (614 / 10)"
  by code_simp+




subsection \<open>C1: the net-buy and net-sell values\<close>




subsection \<open>C2: the day-trade profit and loss\<close>



subsection \<open>C3: the average prices\<close>




subsection \<open>C4: unparsable prices and volumes in df2clean\<close>



subsection \<open>C5: total shares and day-trade volume\<close>



subsection \<open>C6: the ranked views\<close>




subsection \<open>C7: no division by zero, zero fields for a side without volume\<close>



subsection \<open>C8: the order of the input rows\<close>

text \<open>
  Claim C8 says that permuting the input rows leaves \<open>avg_buy_price\<close> and
  \<open>avg_sell_price\<close> of every broker unchanged. The float sum of line 82 depends on the
  order of its terms. For the buy records (63.56, 7 shares), (48.87, 5 shares),
  (84.78, 2 shares) the exact average is 61.345: summed in this order the amount is
  858.8299999999999 and \<open>avg_buy_price\<close> is 61.34; with the last two records
  exchanged the amount is 858.83 and \<open>avg_buy_price\<close> is 61.35. The column
  \<open>buy_price\<close> of the returned table is 61.3 for the first order and 61.4 for the
  second.
\<close>

theorem permutation_float_counterexample:
  "mset float_order_example = mset float_order_example_permuted \<and>
   map_sum id avg_buy_price (broker_locals fl64 float_order_example ''A'') =
     Inr (fl64 (6134 / 100)) \<and>
   map_sum id avg_buy_price (broker_locals fl64 float_order_example_permuted ''A'') =
     Inr (fl64 (6135 / 100)) \<and>
   fl64 (6134 / 100) \<noteq> fl64 (6135 / 100) \<and>
   map_sum id (map buy_price \<circ> agg_rows) (df2calculate fl64 float_order_example) =
     Inr [fl64 (613 / 10)] \<and>
   map_sum id (map buy_price \<circ> agg_rows) (df2calculate fl64 float_order_example_permuted) =
     Inr [fl64 (614 / 10)] \<and>
   fl64 (613 / 10) \<noteq> fl64 (614 / 10)"
  using float_order_example_perm float_order_example_differs
  by (simp add: float_order_example_eval float_order_example_tables)

text \<open>
  C8 as amended: for every permutation of the rows, \<open>total_buy_shares\<close>,
  \<open>total_sell_shares\<close>, \<open>day_trade_volume\<close> and \<open>net_shares\<close> of every broker are
  unchanged whatever the rounding; in exact arithmetic all local variables of every
  broker, among them \<open>avg_buy_price\<close> and \<open>avg_sell_price\<close>, are unchanged, and the
  two tables have the same rows.
\<close>

theorem permutation_invariance_exact:
  assumes "mset df = mset df'"
  shows "(\<exists>l l'. broker_locals fl df b = Inr l \<and> broker_locals fl df' b = Inr l' \<and>
            total_buy_shares l = total_buy_shares l' \<and>
            total_sell_shares l = total_sell_shares l' \<and>
            day_trade_volume l = day_trade_volume l' \<and> net_shares l = net_shares l') \<and>
         broker_locals (\<lambda>x. x) df b = broker_locals (\<lambda>x. x) df' b \<and>
         (\<exists>f f'. df2calculate (\<lambda>x. x) df = Inr f \<and> df2calculate (\<lambda>x. x) df' = Inr f' \<and>
            set (agg_rows f) = set (agg_rows f'))"
proof (intro conjI)
  obtain l l' where l: "broker_locals fl df b = Inr l" and l': "broker_locals fl df' b = Inr l'"
    using broker_locals_Inr by blast
  with broker_locals_shares_perm [OF assms l l']
  show "\<exists>l l'. broker_locals fl df b = Inr l \<and> broker_locals fl df' b = Inr l' \<and>
            total_buy_shares l = total_buy_shares l' \<and>
            total_sell_shares l = total_sell_shares l' \<and>
            day_trade_volume l = day_trade_volume l' \<and> net_shares l = net_shares l'"
    by blast
next
  show "broker_locals (\<lambda>x. x) df b = broker_locals (\<lambda>x. x) df' b"
    using assms by (rule broker_locals_exact_perm)
next
  obtain f f' where f: "df2calculate (\<lambda>x. x) df = Inr f"
    and f': "df2calculate (\<lambda>x. x) df' = Inr f'"
    by (simp add: df2calculate_Inr)
  have "set df = set df'"
    using assms by (rule mset_eq_setD)
  then have "set (agg_rows f) = set (agg_rows f')"
    unfolding df2calculate_row_set [OF f] df2calculate_row_set [OF f']
    by (simp add: broker_locals_exact_perm [OF assms])
  with f f' show "\<exists>f f'. df2calculate (\<lambda>x. x) df = Inr f \<and>
      df2calculate (\<lambda>x. x) df' = Inr f' \<and> set (agg_rows f) = set (agg_rows f')"
    by blast
qed

theorem permutation_invariance_exact_witness:
  "mset spec_example = mset (rev spec_example) \<and>
   broker_locals (\<lambda>x. x) spec_example ''A'' = broker_locals (\<lambda>x. x) (rev spec_example) ''A'' \<and>
   map_sum id avg_buy_price (broker_locals (\<lambda>x. x) (rev spec_example) ''A'') = Inr 10 \<and>
   map_sum id avg_sell_price (broker_locals (\<lambda>x. x) (rev spec_example) ''A'') = Inr 12"
proof -
  have m: "mset spec_example = mset (rev spec_example)"
    by simp
  from permutation_invariance_exact [OF m, of fl64 "''A''"]
  have "broker_locals (\<lambda>x. x) spec_example ''A'' =
          broker_locals (\<lambda>x. x) (rev spec_example) ''A''"
    by blast
  with m spec_example_exact show ?thesis
    by simp
qed

subsection \<open>C9: too few rows, and an empty aggregate table\<close>

text \<open>
  Claim C9. Two parts of it hold: \<open>csv2df\<close> returns \<open>None\<close> when the rows do not
  reach the header row or when reading raised, and a table without rows that has
  the aggregate columns gives empty views.
\<close>

lemma csv2df_no_header:
  assumes "0 \<le> header_row" and "int (length rows) \<le> header_row"
  shows "csv2df (Inr rows) header_row data_start_row = None"
  using assms by (simp add: csv2df_def py_index_def)

lemma csv2df_failed_read: "csv2df (Inl e) header_row data_start_row = None"
  by (simp add: csv2df_def)

lemma top20_no_rows:
  assumes "set result_columns \<subseteq> set (agg_columns df)" and "agg_rows df = []"
  shows "top20_buy fl df n = Inr []" and "top20_sell fl df n = Inr []"
    and "top20_intraday fl df n = Inr []"
  using assms(2)
  by (simp_all add: top20_buy_Inr [OF assms(1)] top20_sell_Inr [OF assms(1)]
      top20_intraday_Inr [OF assms(1)] head_def sort_values_desc_def with_rank_def)

text \<open>
  C9, the failing input: a report that holds the header lines and no data row.
  \<open>csv2df\<close> returns a table without rows (not \<open>None\<close>), \<open>df2clean\<close> returns no
  records, and \<open>df2calculate\<close> builds its table from an empty dict (line 127): the
  table has no columns, and each of the three views raises KeyError on it where the
  claim promises an empty view.
\<close>

theorem empty_report_ranking_raises:
  "csv2df (Inr header_only_report) 2 3 = Some empty_raw_frame \<and>
   df2clean parse empty_raw_frame = Inr [] \<and>
   df2calculate fl [] = Inr \<lparr>agg_columns = [], agg_rows = []\<rparr> \<and>
   top20_buy fl \<lparr>agg_columns = [], agg_rows = []\<rparr> 20 = Inl KeyError \<and>
   top20_sell fl \<lparr>agg_columns = [], agg_rows = []\<rparr> 20 = Inl KeyError \<and>
   top20_intraday fl \<lparr>agg_columns = [], agg_rows = []\<rparr> 20 = Inl KeyError"
proof (intro conjI)
  show "csv2df (Inr header_only_report) 2 3 = Some empty_raw_frame"
    by (simp add: csv2df_def header_only_report_def empty_raw_frame_def py_index_def
        py_slice_from_def DataFrame_def)
  show "df2clean parse empty_raw_frame = Inr []"
    by (simp add: df2clean_def combined_df_def iloc4_def empty_raw_frame_def dropna_def)
  show "df2calculate fl [] = Inr \<lparr>agg_columns = [], agg_rows = []\<rparr>"
    by (simp add: df2calculate_def calc_results_def from_dict_def round_frame_def)
  show "top20_buy fl \<lparr>agg_columns = [], agg_rows = []\<rparr> 20 = Inl KeyError"
    by (simp add: top20_buy_def)
  show "top20_sell fl \<lparr>agg_columns = [], agg_rows = []\<rparr> 20 = Inl KeyError"
    by (simp add: top20_sell_def)
  show "top20_intraday fl \<lparr>agg_columns = [], agg_rows = []\<rparr> 20 = Inl KeyError"
    by (simp add: top20_intraday_def)
qed

subsection \<open>C10: the averages are rounded before they are used\<close>



end
